theory Spec2Isabelle
  imports Complex_Main "HOL-Library.Multiset"
begin

section \<open>Data model (src/types/index.js)\<close>

text \<open>
  JavaScript values are modelled as follows. Strings are \<open>string\<close>; a string is falsy
  exactly when it is empty. Day counts, stock quantities and warranty years are \<open>int\<close>.
  Prices and budgets are \<open>rat\<close>, so that sums are exact (the rounding of IEEE doubles
  is not modelled). A \<open>Date\<close> is its time value: \<open>Some t\<close> for \<open>t\<close> milliseconds
  since the epoch, which a \<open>Date\<close> object holds within 8.64e15 on either side, and
  \<open>None\<close> for the \<open>NaN\<close> of an Invalid Date. A number that can be \<open>NaN\<close> is an
  \<open>int option\<close> in the same way. \<open>setDate(getDate() + n)\<close> is read in a time zone
  without offset changes, where it adds \<open>n\<close> times 86400000 milliseconds. An optional
  array or number of the specification is an \<open>option\<close>, \<open>None\<close> standing for
  \<open>undefined\<close>.
\<close>

type_synonym date = "int option"

record product =
  productId :: string
  productName :: string
  category :: string
  price :: rat
  stockQty :: int
  leadTimeDays :: int
  warehouseLocation :: string
  restrictedStates :: string
  applicableProjectTypes :: string
  certifications :: string
  ecoFriendly :: string
  recyclable :: string
  sustainableSource :: string
  warrantyYears :: int
  installationDifficulty :: string

record projectSpecification =
  projectName :: string
  projectType :: string
  location :: string
  maxBudget :: "rat option"
  projectStartDate :: date
  projectEndDate :: date
  requiredCategories :: "string list option"
  requireCertifications :: bool
  requiredCertifications :: "string list option"
  ecoFriendlyPreference :: bool
  sustainablePreference :: bool
  installationCapability :: string

text \<open>
  The entries of \<open>matchReasons\<close>, \<open>warnings\<close>, \<open>risks\<close> and
  \<open>recommendations\<close> are template strings; each constructor below stands for one
  template of the source, with the values the template interpolates.
\<close>

datatype reason =
    AvailableInLocation          \<comment> \<open>'Available in your location'\<close>
  | SuitableFor string           \<comment> \<open>`Suitable for ${spec.projectType} projects`\<close>
  | HasCertifications nat        \<comment> \<open>`Has ${matchedCerts.length} required certification(s)`\<close>
  | EcoFriendlyProduct           \<comment> \<open>'Eco-friendly product'\<close>
  | SustainableSource            \<comment> \<open>'Sustainable source'\<close>
  | InStock                      \<comment> \<open>'In stock'\<close>
  | DIYFriendly                  \<comment> \<open>'DIY-friendly installation'\<close>
  | ProfessionalInstallation     \<comment> \<open>'Professional installation available'\<close>
  | Warranty int                 \<comment> \<open>`${product.warrantyYears}-year warranty`\<close>
  | CanDeliver "int option"
      \<comment> \<open>`Can deliver ${timeline.daysMargin} days before deadline`\<close>

datatype warning =
    OutOfStock                   \<comment> \<open>'Currently out of stock'\<close>
  | WillBeLate "int option"
      \<comment> \<open>`Will be ${Math.abs(timeline.daysMargin)} days late`\<close>

record timeline =
  estimatedShippingDays :: int
  totalLeadTime :: int
  estimatedDelivery :: date
  meetsTimeline :: bool
  daysMargin :: "int option"

text \<open>The match result spreads the timeline fields (\<open>...timeline\<close>) after its own.\<close>

record productMatch = timeline +
  product :: product
  matchScore :: int
  matchReasons :: "reason list"
  warnings :: "warning list"

section \<open>Shipping estimate (src/utils/csvParser.js)\<close>

definition remoteStates :: "string list" where
  "remoteStates = [''AK'', ''HI'', ''ME'', ''MT'', ''WY'', ''ND'', ''SD'']"

definition regions :: "(string \<times> string list) list" where
  "regions =
    [(''northeast'', [''ME'', ''NH'', ''VT'', ''MA'', ''RI'', ''CT'', ''NY'', ''NJ'', ''PA'']),
     (''southeast'', [''MD'', ''DE'', ''VA'', ''WV'', ''NC'', ''SC'', ''GA'', ''FL'', ''KY'',
                      ''TN'', ''AL'', ''MS'', ''LA'', ''AR'']),
     (''midwest'', [''OH'', ''IN'', ''IL'', ''MI'', ''WI'', ''MN'', ''IA'', ''MO'', ''ND'',
                    ''SD'', ''NE'', ''KS'']),
     (''southwest'', [''TX'', ''OK'', ''NM'', ''AZ'']),
     (''west'', [''CA'', ''NV'', ''OR'', ''WA'', ''ID'', ''UT'', ''CO'', ''WY'', ''MT'']),
     (''other'', [''AK'', ''HI''])]"

text \<open>
  The loop over \<open>Object.entries(regions)\<close>: both region variables start as \<open>null\<close>
  (\<open>None\<close>) and are overwritten by every grouping that lists the state.
\<close>

fun regionLoop ::
  "string \<Rightarrow> string \<Rightarrow> (string \<times> string list) list \<Rightarrow>
   string option \<times> string option \<Rightarrow> string option \<times> string option" where
  "regionLoop w d [] acc = acc"
| "regionLoop w d ((region, states) # rest) (warehouseRegion, destinationRegion) =
     regionLoop w d rest
       (if w \<in> set states then Some region else warehouseRegion,
        if d \<in> set states then Some region else destinationRegion)"

definition calculateShippingDays :: "string \<Rightarrow> string \<Rightarrow> int" where
  "calculateShippingDays warehouseState destinationState =
    (if warehouseState = destinationState then 2
     else
       let isWarehouseRemote = warehouseState \<in> set remoteStates;
           isDestinationRemote = destinationState \<in> set remoteStates;
           baseDays = 5;
           baseDays = (if isWarehouseRemote then baseDays + 3 else baseDays);
           baseDays = (if isDestinationRemote then baseDays + 3 else baseDays);
           (warehouseRegion, destinationRegion) =
             regionLoop warehouseState destinationState regions (None, None);
           baseDays = (if warehouseRegion = destinationRegion \<and> warehouseRegion \<noteq> Some ''other''
                       then baseDays - 2 else baseDays)
       in max baseDays 2)"

text \<open>
  The grouping one state code ends up with after the loop: the projection of
  \<open>regionLoop\<close> to one of its two variables.
\<close>

fun regionOf :: "string \<Rightarrow> (string \<times> string list) list \<Rightarrow> string option \<Rightarrow> string option" where
  "regionOf s [] acc = acc"
| "regionOf s ((region, states) # rest) acc =
     regionOf s rest (if s \<in> set states then Some region else acc)"

section \<open>Filters (src/services/productMatcher.js)\<close>

text \<open>
  The filters that \<open>findMatchingProducts\<close> calls. (\<open>filterByBudget\<close> and
  \<open>filterByStock\<close> are exported by the module and not called by the matcher.)
\<close>

text \<open>\<open>String.prototype.split\<close> with a one-character separator.\<close>

fun splitStr :: "char \<Rightarrow> string \<Rightarrow> string list" where
  "splitStr c [] = [[]]"
| "splitStr c (x # xs) =
     (if x = c then [] # splitStr c xs
      else (case splitStr c xs of [] \<Rightarrow> [[x]] | w # ws \<Rightarrow> (x # w) # ws))"

text \<open>
  \<open>String.prototype.trim\<close> on the ASCII white space characters (tab, line feed,
  vertical tab, form feed, carriage return, space).
\<close>

definition isWhiteSpace :: "char \<Rightarrow> bool" where
  "isWhiteSpace c = (c \<in> set [CHR 0x09, CHR 0x0A, CHR 0x0B, CHR 0x0C, CHR 0x0D, CHR '' ''])"

definition trim :: "string \<Rightarrow> string" where
  "trim s = rev (dropWhile isWhiteSpace (rev (dropWhile isWhiteSpace s)))"

text \<open>The idiom \<open>s.split(';').map(x => x.trim()).filter(x => x)\<close>.\<close>

definition splitList :: "string \<Rightarrow> string list" where
  "splitList s = filter (\<lambda>x. x \<noteq> []) (map trim (splitStr CHR '';'' s))"

text \<open>\<open>String.prototype.includes\<close>: the needle occurs as a substring.\<close>

fun startsWith :: "string \<Rightarrow> string \<Rightarrow> bool" where
  "startsWith hay [] = True"
| "startsWith [] (n # ns) = False"
| "startsWith (h # hs) (n # ns) = (h = n \<and> startsWith hs ns)"

fun includesStr :: "string \<Rightarrow> string \<Rightarrow> bool" where
  "includesStr [] needle = startsWith [] needle"
| "includesStr (h # hs) needle = (startsWith (h # hs) needle \<or> includesStr hs needle)"

definition filterByLocation :: "product list \<Rightarrow> string \<Rightarrow> product list" where
  "filterByLocation products stateCode =
     filter (\<lambda>p. if restrictedStates p = [] then True
                 else stateCode \<notin> set (splitList (restrictedStates p))) products"

definition filterByProjectType :: "product list \<Rightarrow> string \<Rightarrow> product list" where
  "filterByProjectType products pType =
     (if pType = [] then products
      else filter (\<lambda>p. if applicableProjectTypes p = [] then False
                       else pType \<in> set (splitList (applicableProjectTypes p))) products)"

definition filterByCategories :: "product list \<Rightarrow> string list option \<Rightarrow> product list" where
  "filterByCategories products categories =
     (case categories of
        None \<Rightarrow> products
      | Some cs \<Rightarrow> if cs = [] then products
                   else filter (\<lambda>p. category p \<in> set cs) products)"

definition filterByCertifications :: "product list \<Rightarrow> string list option \<Rightarrow> product list" where
  "filterByCertifications products requiredCerts =
     (case requiredCerts of
        None \<Rightarrow> products
      | Some rs \<Rightarrow> if rs = [] then products
                   else filter (\<lambda>p. if certifications p = [] then False
                                    else list_all (\<lambda>reqCert. reqCert \<in> set (splitList (certifications p))) rs)
                          products)"

record preferences =
  prefEcoFriendly :: bool
  prefSustainable :: bool
  prefRecyclable :: bool

definition filterByEcoPreferences :: "product list \<Rightarrow> preferences \<Rightarrow> product list" where
  "filterByEcoPreferences products prefs =
     (let filtered = products;
          filtered = (if prefEcoFriendly prefs
                      then filter (\<lambda>p. ecoFriendly p = ''Yes'') filtered else filtered);
          filtered = (if prefSustainable prefs
                      then filter (\<lambda>p. sustainableSource p = ''Yes'') filtered else filtered);
          filtered = (if prefRecyclable prefs
                      then filter (\<lambda>p. recyclable p = ''Yes'') filtered else filtered)
      in filtered)"

section \<open>Timeline and score\<close>

definition msPerDay :: int where
  "msPerDay = 1000 * 60 * 60 * 24"

text \<open>
  The operations on \<open>Date\<close> that \<open>checkTimeline\<close> uses. \<open>TimeClip\<close> turns a time
  value beyond 8.64e15 milliseconds on either side of the epoch into \<open>NaN\<close>, the time
  value of an Invalid Date. \<open>new Date(d)\<close> copies the time value of \<open>d\<close> through
  \<open>TimeClip\<close>. \<open>d.setDate(d.getDate() + n)\<close> leaves an Invalid Date as it is and
  otherwise moves the date by \<open>n\<close> days and clips the result. A comparison with an
  Invalid Date is false and a difference with one is \<open>NaN\<close>, which \<open>Math.floor\<close> and
  \<open>Math.abs\<close> return unchanged. (The quotient by 86400000 is taken exactly: the rounding
  of the double quotient can change its floor by one for margins beyond 2^27 days and
  leaves its sign as it is.)
\<close>

definition maxTimeValue :: int where
  "maxTimeValue = 8640000000000000"

definition timeClip :: "int \<Rightarrow> date" where
  "timeClip t = (if \<bar>t\<bar> > maxTimeValue then None else Some t)"

definition newDate :: "date \<Rightarrow> date" where
  "newDate d = (case d of None \<Rightarrow> None | Some t \<Rightarrow> timeClip t)"

definition addDays :: "date \<Rightarrow> int \<Rightarrow> date" where
  "addDays d n = (case d of None \<Rightarrow> None | Some t \<Rightarrow> timeClip (t + n * msPerDay))"

definition dateLe :: "date \<Rightarrow> date \<Rightarrow> bool" where
  "dateLe a b = (case a of None \<Rightarrow> False
                 | Some x \<Rightarrow> (case b of None \<Rightarrow> False | Some y \<Rightarrow> x \<le> y))"

definition dateDiff :: "date \<Rightarrow> date \<Rightarrow> int option" where
  "dateDiff a b = (case a of None \<Rightarrow> None
                   | Some x \<Rightarrow> (case b of None \<Rightarrow> None | Some y \<Rightarrow> Some (x - y)))"

definition floorDays :: "int option \<Rightarrow> int option" where
  "floorDays ms = map_option (\<lambda>x. x div msPerDay) ms"

definition checkTimeline :: "product \<Rightarrow> date \<Rightarrow> string \<Rightarrow> date \<Rightarrow> timeline" where
  "checkTimeline p requiredDate projectState orderDate =
     (let shippingDays = calculateShippingDays (warehouseLocation p) projectState;
          totalDays = leadTimeDays p + shippingDays;
          deliveryDate = newDate orderDate;
          deliveryDate = addDays deliveryDate totalDays
      in \<lparr> estimatedShippingDays = shippingDays,
           totalLeadTime = totalDays,
           estimatedDelivery = deliveryDate,
           meetsTimeline = dateLe deliveryDate requiredDate,
           daysMargin = floorDays (dateDiff requiredDate deliveryDate) \<rparr>)"

text \<open>
  The scorer threads three variables, \<open>score\<close>, \<open>matchReasons\<close> and \<open>warnings\<close>,
  through its blocks. Each block is one function on that state, in the order of the source.
\<close>

type_synonym scoring = "int \<times> reason list \<times> warning list"

definition baseStep :: "scoring \<Rightarrow> scoring" where
  "baseStep = (\<lambda>(score, rs, ws). (score + 60, rs @ [AvailableInLocation], ws))"

definition projectTypeStep :: "product \<Rightarrow> projectSpecification \<Rightarrow> scoring \<Rightarrow> scoring" where
  "projectTypeStep p spec = (\<lambda>(score, rs, ws).
     if includesStr (applicableProjectTypes p) (projectType spec)
     then (score + 10, rs @ [SuitableFor (projectType spec)], ws)
     else (score, rs, ws))"

definition certificationStep :: "product \<Rightarrow> projectSpecification \<Rightarrow> scoring \<Rightarrow> scoring" where
  "certificationStep p spec = (\<lambda>(score, rs, ws).
     case requiredCertifications spec of
       None \<Rightarrow> (score, rs, ws)
     | Some reqs \<Rightarrow>
         if length reqs > 0 then
           let productCerts = splitList (certifications p);
               matchedCerts = filter (\<lambda>reqCert. reqCert \<in> set productCerts) reqs
           in if length matchedCerts > 0
              then (score + min (int (length matchedCerts) * 5) 10,
                    rs @ [HasCertifications (length matchedCerts)], ws)
              else (score, rs, ws)
         else (score, rs, ws))"

definition ecoStep :: "product \<Rightarrow> projectSpecification \<Rightarrow> scoring \<Rightarrow> scoring" where
  "ecoStep p spec = (\<lambda>(score, rs, ws).
     let ecoScore = 0;
         (ecoScore, rs) = (if ecoFriendlyPreference spec \<and> ecoFriendly p = ''Yes''
                           then (ecoScore + 5, rs @ [EcoFriendlyProduct]) else (ecoScore, rs));
         (ecoScore, rs) = (if sustainablePreference spec \<and> sustainableSource p = ''Yes''
                           then (ecoScore + 5, rs @ [SustainableSource]) else (ecoScore, rs))
     in (score + min ecoScore 10, rs, ws))"

definition stockStep :: "product \<Rightarrow> scoring \<Rightarrow> scoring" where
  "stockStep p = (\<lambda>(score, rs, ws).
     if stockQty p > 0 then (score + 5, rs @ [InStock], ws)
     else (score, rs, ws @ [OutOfStock]))"

definition installationStep :: "product \<Rightarrow> projectSpecification \<Rightarrow> scoring \<Rightarrow> scoring" where
  "installationStep p spec = (\<lambda>(score, rs, ws).
     if installationCapability spec = ''DIY'' \<and>
        installationDifficulty p \<in> set [''Easy'', ''Moderate'']
     then (score + 5, rs @ [DIYFriendly], ws)
     else if installationCapability spec = ''Professional'' \<and>
             installationDifficulty p = ''Professional Required''
     then (score + 5, rs @ [ProfessionalInstallation], ws)
     else (score, rs, ws))"

definition warrantyStep :: "product \<Rightarrow> scoring \<Rightarrow> scoring" where
  "warrantyStep p = (\<lambda>(score, rs, ws).
     if warrantyYears p \<ge> 10 then (score + 3, rs @ [Warranty (warrantyYears p)], ws)
     else if warrantyYears p \<ge> 5 then (score + 2, rs @ [Warranty (warrantyYears p)], ws)
     else (score, rs, ws))"

definition timelineStep :: "timeline \<Rightarrow> scoring \<Rightarrow> scoring" where
  "timelineStep t = (\<lambda>(score, rs, ws).
     if meetsTimeline t then (score + 5, rs @ [CanDeliver (daysMargin t)], ws)
     else (score - 10, rs, ws @ [WillBeLate (map_option abs (daysMargin t))]))"

text \<open>The state just before the \<open>return\<close> of \<open>calculateMatchScore\<close>.\<close>

definition scoreState :: "product \<Rightarrow> projectSpecification \<Rightarrow> scoring" where
  "scoreState p spec =
     (let st = (0, [], []);
          st = baseStep st;
          st = projectTypeStep p spec st;
          st = certificationStep p spec st;
          st = ecoStep p spec st;
          st = stockStep p st;
          st = installationStep p spec st;
          st = warrantyStep p st;
          t = checkTimeline p (projectEndDate spec) (location spec) (projectStartDate spec)
      in timelineStep t st)"

definition calculateMatchScore :: "product \<Rightarrow> projectSpecification \<Rightarrow> productMatch" where
  "calculateMatchScore p spec =
     (let (score, rs, ws) = scoreState p spec;
          t = checkTimeline p (projectEndDate spec) (location spec) (projectStartDate spec)
      in \<lparr> estimatedShippingDays = estimatedShippingDays t,
           totalLeadTime = totalLeadTime t,
           estimatedDelivery = estimatedDelivery t,
           meetsTimeline = meetsTimeline t,
           daysMargin = daysMargin t,
           product = p,
           matchScore = min (max score 0) 100,
           matchReasons = rs,
           warnings = ws \<rparr>)"

section \<open>Matcher\<close>

text \<open>
  \<open>Array.prototype.sort\<close> with the comparator \<open>b.matchScore - a.matchScore\<close>: the
  language standard (ES2019) makes the sort stable, and the stable sort of a list by a
  total preorder is unique, so it is the stable insertion sort on the negated score.
\<close>

definition sortByScoreDesc :: "productMatch list \<Rightarrow> productMatch list" where
  "sortByScoreDesc scored = sort_key (\<lambda>m. - matchScore m) scored"

definition findMatchingProducts :: "product list \<Rightarrow> projectSpecification \<Rightarrow> productMatch list" where
  "findMatchingProducts allProducts spec =
     (let filtered = allProducts;
          filtered = filterByLocation filtered (location spec);
          filtered = filterByProjectType filtered (projectType spec);
          filtered = (case requiredCategories spec of
                        None \<Rightarrow> filtered
                      | Some cs \<Rightarrow> if length cs > 0
                                   then filterByCategories filtered (requiredCategories spec)
                                   else filtered);
          filtered = (if requireCertifications spec \<and> requiredCertifications spec \<noteq> None
                      then filterByCertifications filtered (requiredCertifications spec)
                      else filtered);
          filtered = (if ecoFriendlyPreference spec \<or> sustainablePreference spec
                      then let ecoFiltered = filterByEcoPreferences filtered
                                 \<lparr> prefEcoFriendly = ecoFriendlyPreference spec,
                                   prefSustainable = sustainablePreference spec,
                                   prefRecyclable = False \<rparr>
                           in if length ecoFiltered > 0 then ecoFiltered else filtered
                      else filtered);
          scored = map (\<lambda>p. calculateMatchScore p spec) filtered
      in sortByScoreDesc scored)"

text \<open>
  Names for the intermediate values of \<open>findMatchingProducts\<close>: the candidates after the
  first four filters (the value of \<open>filtered\<close> before the eco block), the candidates
  after the whole filter chain, and the scoring and ranking of a candidate list.
\<close>

definition candidatesBeforeEco :: "product list \<Rightarrow> projectSpecification \<Rightarrow> product list" where
  "candidatesBeforeEco allProducts spec =
     (let filtered = filterByProjectType (filterByLocation allProducts (location spec))
                       (projectType spec);
          filtered = (case requiredCategories spec of
                        None \<Rightarrow> filtered
                      | Some cs \<Rightarrow> if length cs > 0
                                   then filterByCategories filtered (requiredCategories spec)
                                   else filtered)
      in if requireCertifications spec \<and> requiredCertifications spec \<noteq> None
         then filterByCertifications filtered (requiredCertifications spec)
         else filtered)"

definition ecoNarrowed :: "product list \<Rightarrow> projectSpecification \<Rightarrow> product list" where
  "ecoNarrowed filtered spec =
     filterByEcoPreferences filtered
       \<lparr> prefEcoFriendly = ecoFriendlyPreference spec,
         prefSustainable = sustainablePreference spec,
         prefRecyclable = False \<rparr>"

definition candidates :: "product list \<Rightarrow> projectSpecification \<Rightarrow> product list" where
  "candidates allProducts spec =
     (let filtered = candidatesBeforeEco allProducts spec
      in if ecoFriendlyPreference spec \<or> sustainablePreference spec
         then (if length (ecoNarrowed filtered spec) > 0 then ecoNarrowed filtered spec
               else filtered)
         else filtered)"

definition scoreAndRank :: "product list \<Rightarrow> projectSpecification \<Rightarrow> productMatch list" where
  "scoreAndRank filtered spec = sortByScoreDesc (map (\<lambda>p. calculateMatchScore p spec) filtered)"

section \<open>Project analysis\<close>

record timelineVerdict =
  feasible :: bool
  criticalPath :: "string list"
  concerns :: "string list"

text \<open>The field \<open>product\<close> of a breakdown entry is named \<open>entryProduct\<close> here.\<close>

record breakdownEntry =
  entryProduct :: string
  cost :: rat
  deliveryDate :: date

datatype risk =
    BudgetExceeded rat rat
      \<comment> \<open>`Estimated cost ($${...toFixed(2)}) exceeds budget ($${...toFixed(2)})`\<close>
  | CannotMeetTimeline nat
      \<comment> \<open>`${lateProducts.length} products cannot meet timeline`\<close>
  | MissingCategories "string list"
      \<comment> \<open>`No products found for categories: ${missing.join(', ')}`\<close>

datatype recommendation =
    AdjustSelectionsOrBudget
      \<comment> \<open>'Consider adjusting product selections or increasing budget'\<close>
  | AdjustTimelineOrShipping
      \<comment> \<open>'Consider adjusting timeline or selecting faster-shipping alternatives'\<close>
  | ExpandSearchCriteria
      \<comment> \<open>'Expand search criteria or consider alternative categories'\<close>

record projectAnalysis =
  analysisSpecification :: projectSpecification
  recommendedProducts :: "productMatch list"
  estimatedTotalCost :: rat
  categoryBreakdown :: "(string \<times> breakdownEntry) list"
  timelineAnalysis :: timelineVerdict
  risks :: "risk list"
  recommendations :: "recommendation list"

datatype error = TypeError

text \<open>
  \<open>byCategory\<close> and \<open>categoryBreakdown\<close> are object literals used as dictionaries.
  Their own properties are an association list with distinct keys, in the order of
  insertion; \<open>setKey\<close> is the assignment \<open>obj[k] = v\<close>. A read \<open>obj[k]\<close> of a key
  that is not an own property falls through to \<open>Object.prototype\<close>, whose property
  names are listed below: each of them holds a function or an object, which is truthy and
  has no \<open>push\<close> method. (\<open>Object.keys\<close> enumerates integer-like keys before the
  others; the order of the entries is not used by anything below but the exact sum.)
\<close>

definition objectPrototypeKeys :: "string list" where
  "objectPrototypeKeys =
     [''constructor'', ''__defineGetter__'', ''__defineSetter__'', ''hasOwnProperty'',
      ''__lookupGetter__'', ''__lookupSetter__'', ''isPrototypeOf'', ''propertyIsEnumerable'',
      ''toString'', ''valueOf'', ''__proto__'', ''toLocaleString'']"

fun setKey :: "string \<Rightarrow> 'v \<Rightarrow> (string \<times> 'v) list \<Rightarrow> (string \<times> 'v) list" where
  "setKey k v [] = [(k, v)]"
| "setKey k v ((k', v') # rest) =
     (if k' = k then (k, v) # rest else (k', v') # setKey k v rest)"

text \<open>
  The grouping loop. For a category that is not yet an own property, \<open>byCategory[category]\<close>
  is \<open>undefined\<close> and the array is created, unless the name is inherited: then the read
  is truthy, no array is created, and \<open>.push\<close> raises a TypeError.
\<close>

fun groupByCategory ::
  "productMatch list \<Rightarrow> (string \<times> productMatch list) list \<Rightarrow>
   error + (string \<times> productMatch list) list" where
  "groupByCategory [] byCategory = Inr byCategory"
| "groupByCategory (m # rest) byCategory =
     (let c = category (product m) in
      case map_of byCategory c of
        Some ms \<Rightarrow> groupByCategory rest (setKey c (ms @ [m]) byCategory)
      | None \<Rightarrow>
          if c \<in> set objectPrototypeKeys then Inl TypeError
          else groupByCategory rest (setKey c ([] @ [m]) byCategory))"

text \<open>
  The loop over \<open>Object.keys(byCategory)\<close>, on the pair of \<open>categoryBreakdown\<close> and
  \<open>estimatedTotalCost\<close>; \<open>best\<close> is \<open>undefined\<close> for an empty array, and
  \<open>breakdownEntryOf\<close> is the object literal stored for a category.
\<close>

definition breakdownEntryOf :: "productMatch \<Rightarrow> breakdownEntry" where
  "breakdownEntryOf best =
     \<lparr> entryProduct = productName (product best),
       cost = price (product best),
       deliveryDate = estimatedDelivery best \<rparr>"

fun breakdownLoop ::
  "(string \<times> productMatch list) list \<Rightarrow> (string \<times> breakdownEntry) list \<times> rat \<Rightarrow>
   (string \<times> breakdownEntry) list \<times> rat" where
  "breakdownLoop [] acc = acc"
| "breakdownLoop ((c, ms) # rest) (breakdown, totalCost) =
     (case ms of
        [] \<Rightarrow> breakdownLoop rest (breakdown, totalCost)
      | best # _ \<Rightarrow>
          breakdownLoop rest
            (setKey c (breakdownEntryOf best) breakdown, totalCost + price (product best)))"

definition analyzeProject ::
  "productMatch list \<Rightarrow> projectSpecification \<Rightarrow> error + projectAnalysis" where
  "analyzeProject matchedProducts spec =
     (case groupByCategory matchedProducts [] of
        Inl e \<Rightarrow> Inl e
      | Inr byCategory \<Rightarrow>
          let (breakdown, totalCost) = breakdownLoop byCategory ([], 0);
              rsk = [];
              recs = [];
              (rsk, recs) =
                (case maxBudget spec of
                   None \<Rightarrow> (rsk, recs)
                 | Some budget \<Rightarrow>
                     if budget \<noteq> 0 \<and> totalCost > budget
                     then (rsk @ [BudgetExceeded totalCost budget], recs @ [AdjustSelectionsOrBudget])
                     else (rsk, recs));
              lateProducts = filter (\<lambda>m. \<not> meetsTimeline m) matchedProducts;
              (isFeasible, rsk, recs) =
                (if length lateProducts > 0
                 then (False, rsk @ [CannotMeetTimeline (length lateProducts)],
                       recs @ [AdjustTimelineOrShipping])
                 else (True, rsk, recs));
              (rsk, recs) =
                (case requiredCategories spec of
                   None \<Rightarrow> (rsk, recs)
                 | Some required \<Rightarrow>
                     let foundCategories = map fst breakdown;
                         missing = filter (\<lambda>cat. cat \<notin> set foundCategories) required
                     in if length missing > 0
                        then (rsk @ [MissingCategories missing], recs @ [ExpandSearchCriteria])
                        else (rsk, recs))
          in Inr \<lparr> analysisSpecification = spec,
                   recommendedProducts = matchedProducts,
                   estimatedTotalCost = totalCost,
                   categoryBreakdown = breakdown,
                   timelineAnalysis = \<lparr> feasible = isFeasible, criticalPath = [], concerns = [] \<rparr>,
                   risks = rsk,
                   recommendations = recs \<rparr>)"

section \<open>The shipping rule in the words of the specification\<close>

text \<open>
  The specification's reading of the grouping rule: two days are taken off when one
  grouping lists both states, and never when the origin or the destination is a remote
  state.
\<close>

definition sameGrouping :: "string \<Rightarrow> string \<Rightarrow> bool" where
  "sameGrouping origin destination =
     list_ex (\<lambda>(region, states). origin \<in> set states \<and> destination \<in> set states) regions"

definition claimedShippingDays :: "string \<Rightarrow> string \<Rightarrow> int" where
  "claimedShippingDays origin destination =
     (if origin = destination then 2
      else max 2 (5 + (if origin \<in> set remoteStates then 3 else 0)
                    + (if destination \<in> set remoteStates then 3 else 0)
                    - (if sameGrouping origin destination \<and> origin \<notin> set remoteStates
                          \<and> destination \<notin> set remoteStates then 2 else 0)))"

section \<open>Test data\<close>

text \<open>Scenario A of the specification: one product in stock and its project.\<close>

definition scenarioProduct :: product where
  "scenarioProduct =
     \<lparr> productId = ''P-1'', productName = ''Stud'', category = ''Lumber'', price = 100,
       stockQty = 10, leadTimeDays = 5, warehouseLocation = ''CA'', restrictedStates = '''',
       applicableProjectTypes = ''Residential'', certifications = '''', ecoFriendly = ''No'',
       recyclable = ''No'', sustainableSource = ''No'', warrantyYears = 0,
       installationDifficulty = ''Easy'' \<rparr>"

definition scenarioSpec :: projectSpecification where
  "scenarioSpec =
     \<lparr> projectName = ''House'', projectType = ''Residential'', location = ''CA'',
       maxBudget = Some 200, projectStartDate = Some 0,
       projectEndDate = Some (20 * msPerDay),
       requiredCategories = Some [], requireCertifications = False,
       requiredCertifications = Some [], ecoFriendlyPreference = False,
       sustainablePreference = False, installationCapability = ''Professional'' \<rparr>"

text \<open>A second product, of another category and with a long warranty, and a match list.\<close>

definition steelProduct :: product where
  "steelProduct = scenarioProduct \<lparr> productId := ''P-2'', productName := ''Beam'',
     category := ''Steel'', price := 250, warrantyYears := 10 \<rparr>"

definition cheapLumber :: product where
  "cheapLumber = scenarioProduct \<lparr> productId := ''P-3'', productName := ''Plank'',
     price := 40, stockQty := 0 \<rparr>"

definition sampleCatalog :: "product list" where
  "sampleCatalog = [cheapLumber, scenarioProduct, steelProduct]"

definition ecoSpec :: projectSpecification where
  "ecoSpec = scenarioSpec \<lparr> ecoFriendlyPreference := True \<rparr>"

definition constructorProduct :: product where
  "constructorProduct = scenarioProduct \<lparr> category := ''constructor'' \<rparr>"

definition longLeadProduct :: product where
  "longLeadProduct = scenarioProduct \<lparr> leadTimeDays := 100000000 \<rparr>"

section \<open>Properties of the score\<close>

lemma baseStep_score: "fst (baseStep st) = fst st + 60"
  by (cases st) (simp add: baseStep_def)

lemma projectTypeStep_score:
  "fst st \<le> fst (projectTypeStep p spec st) \<and> fst (projectTypeStep p spec st) \<le> fst st + 10"
  by (cases st) (simp add: projectTypeStep_def)

lemma certificationStep_score:
  "fst st \<le> fst (certificationStep p spec st) \<and> fst (certificationStep p spec st) \<le> fst st + 10"
  by (cases st) (simp add: certificationStep_def Let_def split: option.splits)

lemma ecoStep_score:
  "fst st \<le> fst (ecoStep p spec st) \<and> fst (ecoStep p spec st) \<le> fst st + 10"
  by (cases st) (simp add: ecoStep_def Let_def)

lemma stockStep_score:
  "fst st \<le> fst (stockStep p st) \<and> fst (stockStep p st) \<le> fst st + 5"
  by (cases st) (simp add: stockStep_def)

lemma installationStep_score:
  "fst st \<le> fst (installationStep p spec st) \<and> fst (installationStep p spec st) \<le> fst st + 5"
  by (cases st) (simp add: installationStep_def)

lemma warrantyStep_score:
  "fst st \<le> fst (warrantyStep p st) \<and> fst (warrantyStep p st) \<le> fst st + 3"
  by (cases st) (simp add: warrantyStep_def)

lemma timelineStep_score:
  "fst st - 10 \<le> fst (timelineStep t st) \<and> fst (timelineStep t st) \<le> fst st + 5"
  by (cases st) (simp add: timelineStep_def)

lemma scoreState_bounds:
  "50 \<le> fst (scoreState p spec) \<and> fst (scoreState p spec) \<le> 108"
proof -
  define s0 :: scoring where "s0 = (0, [], [])"
  define s1 where "s1 = baseStep s0"
  define s2 where "s2 = projectTypeStep p spec s1"
  define s3 where "s3 = certificationStep p spec s2"
  define s4 where "s4 = ecoStep p spec s3"
  define s5 where "s5 = stockStep p s4"
  define s6 where "s6 = installationStep p spec s5"
  define s7 where "s7 = warrantyStep p s6"
  define t where "t = checkTimeline p (projectEndDate spec) (location spec) (projectStartDate spec)"
  have eq: "scoreState p spec = timelineStep t s7"
    by (simp add: scoreState_def Let_def s0_def s1_def s2_def s3_def s4_def s5_def s6_def
        s7_def t_def)
  have b1: "fst s1 = 60"
    using baseStep_score [of s0] by (simp add: s1_def s0_def)
  note b2 = projectTypeStep_score [of s1 p spec, folded s2_def]
  note b3 = certificationStep_score [of s2 p spec, folded s3_def]
  note b4 = ecoStep_score [of s3 p spec, folded s4_def]
  note b5 = stockStep_score [of s4 p, folded s5_def]
  note b6 = installationStep_score [of s5 p spec, folded s6_def]
  note b7 = warrantyStep_score [of s6 p, folded s7_def]
  note b8 = timelineStep_score [of s7 t]
  from b1 b2 b3 b4 b5 b6 b7 b8 show ?thesis
    unfolding eq by linarith
qed

lemma matchScore_eq:
  "matchScore (calculateMatchScore p spec) = min (max (fst (scoreState p spec)) 0) 100"
  by (simp add: calculateMatchScore_def Let_def split: prod.splits)

text \<open>
  C1. For every product and every specification the \<open>matchScore\<close> that
  \<open>calculateMatchScore\<close> returns lies between 0 and 100: it is the clamped value
  \<open>Math.min(Math.max(score, 0), 100)\<close> of the summed contributions.
\<close>

theorem C1_matchScore_clamped:
  "0 \<le> matchScore (calculateMatchScore p spec) \<and>
   matchScore (calculateMatchScore p spec) \<le> 100 \<and>
   matchScore (calculateMatchScore p spec) = min (max (fst (scoreState p spec)) 0) 100"
  by (simp add: matchScore_eq)

text \<open>
  C9. For every product and every specification the \<open>matchScore\<close> is at least 50: the
  sum before clamping is at least 50 (60 for the base, no other deduction than the 10 of
  a missed timeline), so taking the maximum with 0 leaves the sum unchanged.
\<close>

theorem C9_matchScore_at_least_50:
  "50 \<le> matchScore (calculateMatchScore p spec) \<and>
   50 \<le> fst (scoreState p spec) \<and>
   max (fst (scoreState p spec)) 0 = fst (scoreState p spec)"
  using scoreState_bounds [of p spec] by (simp add: matchScore_eq)

section \<open>Shipping, timeline and ranking\<close>

lemma regionLoop_regionOf:
  "regionLoop w d rs (a, b) = (regionOf w rs a, regionOf d rs b)"
  by (induction rs arbitrary: a b) auto

lemma regionOf_not_listed:
  "s \<notin> set (concat (map snd rs)) \<Longrightarrow> regionOf s rs acc = acc"
  by (induction rs arbitrary: acc) auto

text \<open>
  No state is listed in two groupings, so a state listed in a grouping ends the loop with
  that grouping, and a state listed in none ends it with \<open>null\<close>.
\<close>

lemma regions_disjoint: "distinct (concat (map snd regions))"
  by (simp add: regions_def)

lemma regionOf_listed_gen:
  "distinct (concat (map snd rs)) \<Longrightarrow> (r, states) \<in> set rs \<Longrightarrow> s \<in> set states \<Longrightarrow>
   regionOf s rs acc = Some r"
proof (induction rs arbitrary: acc)
  case Nil
  then show ?case by simp
next
  case (Cons x rs)
  obtain r' states' where x: "x = (r', states')" by (cases x)
  show ?case
  proof (cases "(r, states) = x")
    case True
    with Cons.prems x have "s \<notin> set (concat (map snd rs))" by auto
    with True x Cons.prems(3) show ?thesis
      by (simp add: regionOf_not_listed)
  next
    case False
    with Cons.prems have "(r, states) \<in> set rs" and "distinct (concat (map snd rs))"
      by auto
    with Cons.IH Cons.prems(3) x show ?thesis by simp
  qed
qed

lemma regionOf_listed:
  "(r, states) \<in> set regions \<Longrightarrow> s \<in> set states \<Longrightarrow> regionOf s regions None = Some r"
  using regionOf_listed_gen [OF regions_disjoint] by blast

text \<open>
  C5, as amended. Equal codes give 2 days. Otherwise the days are 5, plus 3 for a remote
  origin, plus 3 for a remote destination, minus 2 exactly when the loop over the
  groupings leaves both codes with the same result and that result is not the grouping
  \<open>other\<close> (Alaska and Hawaii), floored at 2. The remote states listed in a grouping
  other than \<open>other\<close> (ME, MT, WY, ND, SD) do receive the reduction.
\<close>

theorem C5_shipping_days:
  "calculateShippingDays origin destination =
     (if origin = destination then 2
      else max 2 (5 + (if origin \<in> set remoteStates then 3 else 0)
                    + (if destination \<in> set remoteStates then 3 else 0)
                    - (if regionOf origin regions None = regionOf destination regions None
                          \<and> regionOf origin regions None \<noteq> Some ''other'' then 2 else 0)))"
  by (auto simp add: calculateShippingDays_def regionLoop_regionOf Let_def)

text \<open>
  C5 as the specification words it fails from Maine to New Hampshire: the origin is remote
  and both states are in the north-east grouping; the code takes the two days off and
  returns 6, where the rule that exempts remote states gives 8.
\<close>

theorem C5_counterexample:
  "calculateShippingDays ''ME'' ''NH'' = 6 \<and> claimedShippingDays ''ME'' ''NH'' = 8"
  by (simp add: calculateShippingDays_def claimedShippingDays_def sameGrouping_def regions_def
      remoteStates_def Let_def)

text \<open>
  C10. Two distinct codes that are neither remote states nor listed in any grouping ship in
  3 days: both region variables stay \<open>null\<close>, they compare equal and differ from
  \<open>other\<close>, and 2 is taken off the base of 5.
\<close>

theorem C10_unknown_codes:
  assumes "w \<noteq> d"
      and "w \<notin> set remoteStates" and "d \<notin> set remoteStates"
      and "w \<notin> set (concat (map snd regions))" and "d \<notin> set (concat (map snd regions))"
  shows "calculateShippingDays w d = 3"
  using assms
  by (simp add: calculateShippingDays_def regionLoop_regionOf regionOf_not_listed Let_def)

text \<open>The codes DC and PR are such a pair.\<close>

theorem C10_witness:
  "''DC'' \<noteq> ''PR'' \<and> ''DC'' \<notin> set remoteStates \<and> ''PR'' \<notin> set remoteStates \<and>
   ''DC'' \<notin> set (concat (map snd regions)) \<and> ''PR'' \<notin> set (concat (map snd regions)) \<and>
   calculateShippingDays ''DC'' ''PR'' = 3"
proof -
  have h1: "''DC'' \<noteq> ''PR''" by simp
  have h2: "''DC'' \<notin> set remoteStates" and h3: "''PR'' \<notin> set remoteStates"
    by (simp_all add: remoteStates_def)
  have h4: "''DC'' \<notin> set (concat (map snd regions))"
    and h5: "''PR'' \<notin> set (concat (map snd regions))"
    by (simp_all add: regions_def)
  from C10_unknown_codes [OF h1 h2 h3 h4 h5] h1 h2 h3 h4 h5 show ?thesis by blast
qed

lemma msPerDay_pos: "0 < msPerDay"
  by (simp add: msPerDay_def)

lemmas date_defs = newDate_def addDays_def timeClip_def dateLe_def dateDiff_def floorDays_def
  maxTimeValue_def

text \<open>
  The estimated delivery is a valid date exactly when the order date is one and the
  delivery stays in the range of \<open>Date\<close>; with an Invalid Date for the delivery or for
  the required date, the timeline is not met and the margin is \<open>NaN\<close>.
\<close>

lemma checkTimeline_delivery:
  "estimatedDelivery (checkTimeline p requiredDate st (Some t)) =
     (if \<bar>t\<bar> \<le> maxTimeValue \<and>
         \<bar>t + (leadTimeDays p + calculateShippingDays (warehouseLocation p) st) * msPerDay\<bar>
           \<le> maxTimeValue
      then Some (t + (leadTimeDays p + calculateShippingDays (warehouseLocation p) st) * msPerDay)
      else None)"
  by (simp add: checkTimeline_def newDate_def addDays_def timeClip_def Let_def)

lemma checkTimeline_invalid:
  assumes "requiredDate = None \<or> estimatedDelivery (checkTimeline p requiredDate st orderDate) = None"
  shows "\<not> meetsTimeline (checkTimeline p requiredDate st orderDate) \<and>
         daysMargin (checkTimeline p requiredDate st orderDate) = None"
  using assms
  by (auto simp add: checkTimeline_def dateLe_def dateDiff_def floorDays_def Let_def
      split: option.splits)

text \<open>
  The two fields are computed from the same pair of time values: for every valid delivery
  date and required date, however the delivery date was reached, the comparison holds
  exactly when the floored difference is not negative.
\<close>

lemma dateLe_iff_margin:
  "floorDays (dateDiff (Some r) (Some d)) = Some ((r - d) div msPerDay) \<and>
   dateLe (Some d) (Some r) = (0 \<le> (r - d) div msPerDay)"
  using msPerDay_pos
  by (simp add: dateLe_def dateDiff_def floorDays_def pos_imp_zdiv_nonneg_iff)

lemma checkTimeline_valid:
  assumes "requiredDate = Some r"
      and "estimatedDelivery (checkTimeline p requiredDate st orderDate) = Some d"
  shows "daysMargin (checkTimeline p requiredDate st orderDate) = Some ((r - d) div msPerDay) \<and>
         meetsTimeline (checkTimeline p requiredDate st orderDate) = (0 \<le> (r - d) div msPerDay)"
proof -
  have "daysMargin (checkTimeline p requiredDate st orderDate) =
          floorDays (dateDiff requiredDate (estimatedDelivery (checkTimeline p requiredDate st orderDate)))"
    and "meetsTimeline (checkTimeline p requiredDate st orderDate) =
          dateLe (estimatedDelivery (checkTimeline p requiredDate st orderDate)) requiredDate"
    by (simp_all add: checkTimeline_def Let_def)
  with assms dateLe_iff_margin [of r d] show ?thesis by simp
qed

text \<open>
  C6, as amended. Whenever the required date and the estimated delivery are valid dates,
  the margin is a number, the timeline is met exactly when the margin is not negative,
  and missed exactly when the margin is negative; so a positive margin meets the timeline,
  and a delivery on the project end date itself has margin 0 and meets it.
\<close>

theorem C6_timeline_sign:
  assumes "requiredDate = Some r"
      and "estimatedDelivery (checkTimeline p requiredDate st orderDate) = Some d"
  shows "\<exists>m. daysMargin (checkTimeline p requiredDate st orderDate) = Some m \<and>
             meetsTimeline (checkTimeline p requiredDate st orderDate) = (0 \<le> m) \<and>
             (\<not> meetsTimeline (checkTimeline p requiredDate st orderDate)) = (m < 0) \<and>
             (0 < m \<longrightarrow> meetsTimeline (checkTimeline p requiredDate st orderDate)) \<and>
             (d = r \<longrightarrow> m = 0 \<and> meetsTimeline (checkTimeline p requiredDate st orderDate))"
  using checkTimeline_valid [OF assms] by auto

text \<open>
  The product of Scenario A, ordered on day 0, is delivered on day 7: with the end date on
  day 7 the margin is 0, with the end date on day 20 it is 13, and both meet the timeline.
\<close>

theorem C6_witness:
  "estimatedDelivery (checkTimeline scenarioProduct (Some (7 * msPerDay)) ''CA'' (Some 0))
     = Some (7 * msPerDay) \<and>
   daysMargin (checkTimeline scenarioProduct (Some (7 * msPerDay)) ''CA'' (Some 0)) = Some 0 \<and>
   meetsTimeline (checkTimeline scenarioProduct (Some (7 * msPerDay)) ''CA'' (Some 0)) \<and>
   estimatedDelivery (checkTimeline scenarioProduct (Some (20 * msPerDay)) ''CA'' (Some 0))
     = Some (7 * msPerDay) \<and>
   daysMargin (checkTimeline scenarioProduct (Some (20 * msPerDay)) ''CA'' (Some 0)) = Some 13 \<and>
   meetsTimeline (checkTimeline scenarioProduct (Some (20 * msPerDay)) ''CA'' (Some 0))"
proof -
  have d: "estimatedDelivery (checkTimeline scenarioProduct requiredDate ''CA'' (Some 0))
             = Some (7 * msPerDay)" for requiredDate
    by (simp add: checkTimeline_delivery scenarioProduct_def calculateShippingDays_def
        maxTimeValue_def msPerDay_def)
  have m: "daysMargin (checkTimeline scenarioProduct (Some (20 * msPerDay)) ''CA'' (Some 0))
             = Some 13"
    by (simp add: checkTimeline_def scenarioProduct_def calculateShippingDays_def date_defs
        msPerDay_def Let_def)
  from C6_timeline_sign [OF refl d, of "7 * msPerDay"]
    C6_timeline_sign [OF refl d, of "20 * msPerDay"] d m
  show ?thesis by auto
qed

text \<open>
  C6 as the specification words it fails for a lead time of 100000000 days: the order and
  end dates are valid, the delivery leaves the range of \<open>Date\<close> and becomes an Invalid
  Date, the timeline is not met, and the margin is \<open>NaN\<close>, not a negative number.
\<close>

theorem C6_counterexample:
  "estimatedDelivery (checkTimeline longLeadProduct (Some (20 * msPerDay)) ''CA'' (Some 0)) = None \<and>
   \<not> meetsTimeline (checkTimeline longLeadProduct (Some (20 * msPerDay)) ''CA'' (Some 0)) \<and>
   daysMargin (checkTimeline longLeadProduct (Some (20 * msPerDay)) ''CA'' (Some 0)) = None"
  by (simp add: checkTimeline_def longLeadProduct_def scenarioProduct_def
      calculateShippingDays_def date_defs msPerDay_def Let_def)

lemma sorted_sortByScoreDesc:
  "sorted_wrt (\<lambda>a b. matchScore b \<le> matchScore a) (sortByScoreDesc xs)"
  using sorted_sort_key [of "\<lambda>m. - matchScore m" xs]
  by (simp add: sortByScoreDesc_def sorted_map)

lemma stable_sortByScoreDesc:
  "filter (\<lambda>m. matchScore m = k) (sortByScoreDesc xs) = filter (\<lambda>m. matchScore m = k) xs"
  using sort_key_stable [of "\<lambda>m. - matchScore m" "- k" xs]
  by (simp add: sortByScoreDesc_def)

lemma findMatchingProducts_stages:
  "findMatchingProducts allProducts spec = scoreAndRank (candidates allProducts spec) spec"
  by (simp add: findMatchingProducts_def scoreAndRank_def candidates_def candidatesBeforeEco_def
      ecoNarrowed_def Let_def split: option.splits)

text \<open>
  C4. The result of \<open>findMatchingProducts\<close> is sorted by non-increasing score, and
  for every score the results with that score are, in the same order, the scored candidates
  with that score as the filter chain left them; the result is a permutation of the scored
  candidates.
\<close>

theorem C4_sorted_stable:
  "sorted_wrt (\<lambda>a b. matchScore b \<le> matchScore a) (findMatchingProducts allProducts spec) \<and>
   (\<forall>k. filter (\<lambda>m. matchScore m = k) (findMatchingProducts allProducts spec)
        = filter (\<lambda>m. matchScore m = k)
            (map (\<lambda>p. calculateMatchScore p spec) (candidates allProducts spec))) \<and>
   mset (findMatchingProducts allProducts spec)
     = mset (map (\<lambda>p. calculateMatchScore p spec) (candidates allProducts spec))"
  by (simp add: findMatchingProducts_stages scoreAndRank_def sorted_sortByScoreDesc
      stable_sortByScoreDesc) (simp add: sortByScoreDesc_def)

section \<open>Environmental preference\<close>

lemma scoreAndRank_nonempty: "(scoreAndRank xs spec = []) = (xs = [])"
proof -
  have "length (scoreAndRank xs spec) = length xs"
    by (simp add: scoreAndRank_def sortByScoreDesc_def)
  then show ?thesis by (metis length_0_conv)
qed

lemma product_calculateMatchScore: "product (calculateMatchScore p spec) = p"
  by (simp add: calculateMatchScore_def Let_def split: prod.splits)

lemma mset_products_scoreAndRank:
  "image_mset product (mset (scoreAndRank xs spec)) = mset xs"
proof -
  have "mset (scoreAndRank xs spec) = image_mset (\<lambda>p. calculateMatchScore p spec) (mset xs)"
    by (simp add: scoreAndRank_def sortByScoreDesc_def)
  then show ?thesis
    by (simp add: image_mset.compositionality comp_def product_calculateMatchScore)
qed

text \<open>
  C3. With an eco-friendly or a sustainable preference set, \<open>findMatchingProducts\<close>
  scores and ranks the candidates that survive the first four filters when the
  environmental narrowing of them is empty, and the narrowed candidates otherwise: the
  products of the result are exactly that list, up to order. So the result is empty only
  when no candidate survived the first four filters.
\<close>

theorem C3_eco_degradation:
  assumes "ecoFriendlyPreference spec \<or> sustainablePreference spec"
  shows "findMatchingProducts allProducts spec =
           (if ecoNarrowed (candidatesBeforeEco allProducts spec) spec = []
            then scoreAndRank (candidatesBeforeEco allProducts spec) spec
            else scoreAndRank (ecoNarrowed (candidatesBeforeEco allProducts spec) spec) spec) \<and>
         mset (map product (findMatchingProducts allProducts spec)) =
           (if ecoNarrowed (candidatesBeforeEco allProducts spec) spec = []
            then mset (candidatesBeforeEco allProducts spec)
            else mset (ecoNarrowed (candidatesBeforeEco allProducts spec) spec)) \<and>
         (findMatchingProducts allProducts spec = []) = (candidatesBeforeEco allProducts spec = [])"
proof -
  let ?pre = "candidatesBeforeEco allProducts spec"
  have c: "candidates allProducts spec = (if ecoNarrowed ?pre spec = [] then ?pre else ecoNarrowed ?pre spec)"
    using assms by (simp add: candidates_def Let_def)
  have e: "ecoNarrowed ?pre spec = [] \<or> ?pre \<noteq> []"
    by (auto simp add: ecoNarrowed_def filterByEcoPreferences_def Let_def)
  show ?thesis
    using e by (auto simp add: findMatchingProducts_stages c scoreAndRank_nonempty
        mset_products_scoreAndRank)
qed

text \<open>
  No product of the sample catalog is eco-friendly; with the eco-friendly preference set,
  all three of its products are still scored.
\<close>

theorem C3_witness:
  "(ecoFriendlyPreference ecoSpec \<or> sustainablePreference ecoSpec) \<and>
   ecoNarrowed (candidatesBeforeEco sampleCatalog ecoSpec) ecoSpec = [] \<and>
   candidatesBeforeEco sampleCatalog ecoSpec = sampleCatalog \<and>
   findMatchingProducts sampleCatalog ecoSpec = scoreAndRank sampleCatalog ecoSpec \<and>
   findMatchingProducts sampleCatalog ecoSpec \<noteq> []"
proof -
  have h: "ecoFriendlyPreference ecoSpec \<or> sustainablePreference ecoSpec"
    by (simp add: ecoSpec_def scenarioSpec_def)
  have pre: "candidatesBeforeEco sampleCatalog ecoSpec = sampleCatalog"
    by (simp add: candidatesBeforeEco_def ecoSpec_def scenarioSpec_def sampleCatalog_def
        cheapLumber_def steelProduct_def scenarioProduct_def filterByLocation_def
        filterByProjectType_def splitList_def trim_def isWhiteSpace_def Let_def)
  have nar: "ecoNarrowed sampleCatalog ecoSpec = []"
    by (simp add: ecoNarrowed_def filterByEcoPreferences_def ecoSpec_def scenarioSpec_def
        sampleCatalog_def cheapLumber_def steelProduct_def scenarioProduct_def Let_def)
  have ne: "sampleCatalog \<noteq> []"
    by (simp add: sampleCatalog_def)
  from C3_eco_degradation [OF h, of sampleCatalog] h pre nar ne show ?thesis
    by (simp add: scoreAndRank_nonempty)
qed

section \<open>Scenario A\<close>

lemma scenario_timeline:
  assumes "warehouseLocation p = ''CA''" and "leadTimeDays p = 5"
  shows "checkTimeline p (Some (20 * msPerDay)) ''CA'' (Some 0) =
           \<lparr> estimatedShippingDays = 2, totalLeadTime = 7,
             estimatedDelivery = Some (7 * msPerDay),
             meetsTimeline = True, daysMargin = Some 13 \<rparr>"
  using assms
  by (simp add: checkTimeline_def calculateShippingDays_def date_defs Let_def msPerDay_def)

lemma scenario_match:
  assumes "warehouseLocation p = ''CA''" and "leadTimeDays p = 5"
      and "0 < stockQty p" and "applicableProjectTypes p = ''Residential''"
      and "warrantyYears p = 0" and "installationDifficulty p = ''Easy''"
      and "projectType spec = ''Residential''" and "location spec = ''CA''"
      and "projectStartDate spec = Some 0" and "projectEndDate spec = Some (20 * msPerDay)"
      and "requiredCertifications spec = None \<or> requiredCertifications spec = Some []"
      and "\<not> ecoFriendlyPreference spec" and "\<not> sustainablePreference spec"
      and "installationCapability spec = ''Professional''"
  shows "calculateMatchScore p spec =
           \<lparr> estimatedShippingDays = 2, totalLeadTime = 7,
             estimatedDelivery = Some (7 * msPerDay),
             meetsTimeline = True, daysMargin = Some 13, product = p, matchScore = 80,
             matchReasons = [AvailableInLocation, SuitableFor ''Residential'', InStock,
                             CanDeliver (Some 13)],
             warnings = [] \<rparr>"
proof -
  have t: "checkTimeline p (projectEndDate spec) (location spec) (projectStartDate spec) =
           \<lparr> estimatedShippingDays = 2, totalLeadTime = 7,
             estimatedDelivery = Some (7 * msPerDay),
             meetsTimeline = True, daysMargin = Some 13 \<rparr>"
    using assms scenario_timeline [of p] by simp
  have s: "scoreState p spec =
             (80, [AvailableInLocation, SuitableFor ''Residential'', InStock, CanDeliver (Some 13)], [])"
    using assms(3-7,11-14)
    by (auto simp add: scoreState_def t baseStep_def projectTypeStep_def certificationStep_def
        ecoStep_def stockStep_def installationStep_def warrantyStep_def timelineStep_def Let_def)
  show ?thesis
    by (simp add: calculateMatchScore_def s t)
qed

lemma scenario_filters:
  assumes "restrictedStates p = ''''" and "applicableProjectTypes p = ''Residential''"
  shows "filterByLocation [p] ''CA'' = [p]" and "filterByProjectType [p] ''Residential'' = [p]"
  using assms
  by (simp_all add: filterByLocation_def filterByProjectType_def splitList_def trim_def
      isWhiteSpace_def)

lemma scenario_candidates:
  assumes "restrictedStates p = ''''" and "applicableProjectTypes p = ''Residential''"
      and "projectType spec = ''Residential''" and "location spec = ''CA''"
      and "requiredCategories spec = None \<or> requiredCategories spec = Some []"
      and "requiredCertifications spec = None \<or> requiredCertifications spec = Some []"
      and "\<not> ecoFriendlyPreference spec" and "\<not> sustainablePreference spec"
  shows "candidates [p] spec = [p]"
  using assms scenario_filters [of p]
  by (auto simp add: candidates_def candidatesBeforeEco_def filterByCertifications_def Let_def)

lemma scenario_analysis:
  assumes "category (product m) = ''Lumber''" and "price (product m) = 100"
      and "meetsTimeline m"
      and "maxBudget spec = Some 200"
      and "requiredCategories spec = None \<or> requiredCategories spec = Some []"
  shows "analyzeProject [m] spec =
           Inr \<lparr> analysisSpecification = spec, recommendedProducts = [m],
                 estimatedTotalCost = 100,
                 categoryBreakdown =
                   [(''Lumber'', \<lparr> entryProduct = productName (product m), cost = 100,
                                    deliveryDate = estimatedDelivery m \<rparr>)],
                 timelineAnalysis = \<lparr> feasible = True, criticalPath = [], concerns = [] \<rparr>,
                 risks = [], recommendations = [] \<rparr>"
proof -
  have g: "groupByCategory [m] [] = Inr [(''Lumber'', [m])]"
    using assms(1) by (simp add: objectPrototypeKeys_def)
  show ?thesis
    using assms
    by (auto simp add: analyzeProject_def g breakdownEntryOf_def Let_def
        simp del: groupByCategory.simps)
qed

text \<open>
  C2. Scenario A: a catalog of one product stored in CA, with lead time 5, price 100,
  category Lumber, in stock, unrestricted, applicable to Residential, without
  certifications or warranty and easy to install, against a Residential project in CA from
  day 0 to day 20 with budget 200, no required categories or certifications, no eco
  preferences and professional installation. The product passes the region and type
  filters; its match has score 80 with exactly the reasons base, project type, stock and
  timeline (shipping 2 days, total lead time 7), and no warning; the analysis of the
  result has estimated total cost 100 and no risks.
\<close>

theorem C2_scenario_A:
  assumes "warehouseLocation p = ''CA''" and "leadTimeDays p = 5" and "price p = 100"
      and "category p = ''Lumber''" and "0 < stockQty p" and "restrictedStates p = ''''"
      and "applicableProjectTypes p = ''Residential''" and "certifications p = ''''"
      and "warrantyYears p = 0" and "installationDifficulty p = ''Easy''"
      and "projectType spec = ''Residential''" and "location spec = ''CA''"
      and "projectStartDate spec = Some 0" and "projectEndDate spec = Some (20 * msPerDay)"
      and "maxBudget spec = Some 200"
      and "requiredCategories spec = None \<or> requiredCategories spec = Some []"
      and "requiredCertifications spec = None \<or> requiredCertifications spec = Some []"
      and "\<not> ecoFriendlyPreference spec" and "\<not> sustainablePreference spec"
      and "installationCapability spec = ''Professional''"
  shows "filterByLocation [p] (location spec) = [p] \<and>
         filterByProjectType [p] (projectType spec) = [p] \<and>
         findMatchingProducts [p] spec =
           [\<lparr> estimatedShippingDays = 2, totalLeadTime = 7,
              estimatedDelivery = Some (7 * msPerDay),
              meetsTimeline = True, daysMargin = Some 13, product = p, matchScore = 80,
              matchReasons = [AvailableInLocation, SuitableFor ''Residential'', InStock,
                              CanDeliver (Some 13)],
              warnings = [] \<rparr>] \<and>
         (\<exists>a. analyzeProject (findMatchingProducts [p] spec) spec = Inr a \<and>
              estimatedTotalCost a = 100 \<and> risks a = [] \<and> recommendations a = [] \<and>
              feasible (timelineAnalysis a))"
proof -
  let ?m = "\<lparr> estimatedShippingDays = 2, totalLeadTime = 7,
              estimatedDelivery = Some (7 * msPerDay),
              meetsTimeline = True, daysMargin = Some 13, product = p, matchScore = 80,
              matchReasons = [AvailableInLocation, SuitableFor ''Residential'', InStock,
                              CanDeliver (Some 13)],
              warnings = [] \<rparr>"
  have f: "filterByLocation [p] (location spec) = [p]"
          "filterByProjectType [p] (projectType spec) = [p]"
    using scenario_filters [OF assms(6,7)] assms(11,12) by simp_all
  have c: "candidates [p] spec = [p]"
    using assms by (intro scenario_candidates)
  have m: "calculateMatchScore p spec = ?m"
    using assms by (intro scenario_match)
  have r: "findMatchingProducts [p] spec = [?m]"
    by (simp add: findMatchingProducts_stages c scoreAndRank_def sortByScoreDesc_def m)
  have a: "\<exists>a. analyzeProject [?m] spec = Inr a \<and> estimatedTotalCost a = 100 \<and> risks a = [] \<and>
             recommendations a = [] \<and> feasible (timelineAnalysis a)"
    using scenario_analysis [of ?m spec] assms(3,4,15,16) by simp
  show ?thesis
    using f r a by simp
qed

text \<open>The test product and project of Scenario A satisfy the hypotheses.\<close>

theorem C2_witness:
  "filterByLocation [scenarioProduct] (location scenarioSpec) = [scenarioProduct] \<and>
   filterByProjectType [scenarioProduct] (projectType scenarioSpec) = [scenarioProduct] \<and>
   findMatchingProducts [scenarioProduct] scenarioSpec =
     [\<lparr> estimatedShippingDays = 2, totalLeadTime = 7,
        estimatedDelivery = Some (7 * msPerDay),
        meetsTimeline = True, daysMargin = Some 13, product = scenarioProduct, matchScore = 80,
        matchReasons = [AvailableInLocation, SuitableFor ''Residential'', InStock,
                        CanDeliver (Some 13)],
        warnings = [] \<rparr>] \<and>
   (\<exists>a. analyzeProject (findMatchingProducts [scenarioProduct] scenarioSpec) scenarioSpec = Inr a \<and>
        estimatedTotalCost a = 100 \<and> risks a = [] \<and> recommendations a = [] \<and>
        feasible (timelineAnalysis a))"
  by (rule C2_scenario_A) (simp_all add: scenarioProduct_def scenarioSpec_def)

section \<open>Category breakdown\<close>

lemma keys_setKey:
  "map fst (setKey k v al) = (if k \<in> set (map fst al) then map fst al else map fst al @ [k])"
  by (induction al) (auto simp add: rev_image_eqI)

lemma map_of_setKey: "map_of (setKey k v al) = (map_of al)(k \<mapsto> v)"
  by (induction al) auto

lemma setKey_fresh: "k \<notin> set (map fst al) \<Longrightarrow> setKey k v al = al @ [(k, v)]"
  by (induction al) auto

lemma distinct_setKey: "distinct (map fst al) \<Longrightarrow> distinct (map fst (setKey k v al))"
  by (simp add: keys_setKey)

lemma groupByCategory_raises_iff:
  "set (map fst acc) \<inter> set objectPrototypeKeys = {} \<Longrightarrow>
   (groupByCategory ms acc = Inl TypeError) =
     (\<exists>m \<in> set ms. category (product m) \<in> set objectPrototypeKeys)"
proof (induction ms arbitrary: acc)
  case Nil
  then show ?case by simp
next
  case (Cons m ms)
  let ?c = "category (product m)"
  show ?case
  proof (cases "map_of acc ?c")
    case None
    show ?thesis
    proof (cases "?c \<in> set objectPrototypeKeys")
      case True
      with None show ?thesis by simp
    next
      case False
      have "set (map fst (setKey ?c [m] acc)) \<inter> set objectPrototypeKeys = {}"
        using Cons.prems False by (auto simp add: keys_setKey)
      from Cons.IH [OF this] None False show ?thesis by simp
    qed
  next
    case (Some g)
    then have "?c \<in> set (map fst acc)"
      by (metis map_of_eq_None_iff option.distinct(1) set_map)
    with Cons.prems have notin: "?c \<notin> set objectPrototypeKeys" by auto
    have "set (map fst (setKey ?c (g @ [m]) acc)) \<inter> set objectPrototypeKeys = {}"
      using Cons.prems \<open>?c \<in> set (map fst acc)\<close> by (simp add: keys_setKey)
    from Cons.IH [OF this] Some notin show ?thesis by simp
  qed
qed

lemma analyzeProject_cases:
  "(\<exists>gs a. groupByCategory ms [] = Inr gs \<and> analyzeProject ms spec = Inr a \<and>
      categoryBreakdown a = fst (breakdownLoop gs ([], 0)) \<and>
      estimatedTotalCost a = snd (breakdownLoop gs ([], 0)) \<and>
      recommendedProducts a = ms \<and> analysisSpecification a = spec \<and>
      feasible (timelineAnalysis a) = (filter (\<lambda>m. \<not> meetsTimeline m) ms = [])) \<or>
   (groupByCategory ms [] = Inl TypeError \<and> analyzeProject ms spec = Inl TypeError)"
proof (cases "groupByCategory ms []")
  case (Inl e)
  then show ?thesis by (cases e) (simp add: analyzeProject_def)
next
  case (Inr gs)
  then show ?thesis
    by (simp add: analyzeProject_def Let_def split: prod.splits option.splits)
qed

lemma analyzeProject_raises_iff:
  "(analyzeProject ms spec = Inl TypeError) =
     (\<exists>m \<in> set ms. category (product m) \<in> set objectPrototypeKeys)"
proof -
  have "(analyzeProject ms spec = Inl TypeError) = (groupByCategory ms [] = Inl TypeError)"
    using analyzeProject_cases [of ms spec] by auto
  then show ?thesis
    using groupByCategory_raises_iff [of "[]" ms] by simp
qed

lemma set_keys_setKey: "set (map fst (setKey k v al)) = insert k (set (map fst al))"
  by (auto simp add: keys_setKey)

lemma groupByCategory_step:
  "groupByCategory (m # ms) acc = Inr gs \<Longrightarrow>
   groupByCategory ms
     (setKey (category (product m))
        ((case map_of acc (category (product m)) of Some g \<Rightarrow> g | None \<Rightarrow> []) @ [m]) acc)
     = Inr gs"
  by (simp add: Let_def split: option.splits if_splits)

lemma groupByCategory_keys:
  "groupByCategory ms acc = Inr gs \<Longrightarrow>
   set (map fst gs) = set (map fst acc) \<union> (\<lambda>m. category (product m)) ` set ms"
proof (induction ms arbitrary: acc)
  case Nil
  then show ?case by simp
next
  case (Cons m ms)
  from Cons.IH [OF groupByCategory_step [OF Cons.prems]] show ?case
    by (simp only: set_keys_setKey) auto
qed

lemma groupByCategory_distinct:
  "groupByCategory ms acc = Inr gs \<Longrightarrow> distinct (map fst acc) \<Longrightarrow> distinct (map fst gs)"
proof (induction ms arbitrary: acc)
  case Nil
  then show ?case by simp
next
  case (Cons m ms)
  from Cons.IH [OF groupByCategory_step [OF Cons.prems(1)]] Cons.prems(2) show ?case
    by (simp only: distinct_setKey)
qed

lemma groupByCategory_content:
  "groupByCategory ms acc = Inr gs \<Longrightarrow>
   map_of gs c =
     (case map_of acc c of
        Some g \<Rightarrow> Some (g @ filter (\<lambda>m. category (product m) = c) ms)
      | None \<Rightarrow> if c \<in> (\<lambda>m. category (product m)) ` set ms
                then Some (filter (\<lambda>m. category (product m) = c) ms) else None)"
proof (induction ms arbitrary: acc)
  case Nil
  then show ?case by (simp split: option.splits)
next
  case (Cons m ms)
  note ih = Cons.IH [OF groupByCategory_step [OF Cons.prems], unfolded map_of_setKey]
  show ?case
  proof (cases "c = category (product m)")
    case True
    with ih show ?thesis by (simp split: option.splits)
  next
    case False
    with ih show ?thesis by (auto split: option.splits)
  qed
qed

lemma breakdownLoop_eq:
  "distinct (map fst gs) \<Longrightarrow> set (map fst gs) \<inter> set (map fst bd) = {} \<Longrightarrow>
   breakdownLoop gs (bd, t) =
     (bd @ map (\<lambda>(c, g). (c, breakdownEntryOf (hd g))) (filter (\<lambda>(c, g). g \<noteq> []) gs),
      t + sum_list (map (\<lambda>(c, g). price (product (hd g))) (filter (\<lambda>(c, g). g \<noteq> []) gs)))"
proof (induction gs arbitrary: bd t)
  case Nil
  then show ?case by simp
next
  case (Cons cg gs)
  obtain c g where cg: "cg = (c, g)" by (cases cg)
  show ?case
  proof (cases g)
    case Nil
    with Cons.IH [of bd t] Cons.prems cg show ?thesis by simp
  next
    case (Cons best more)
    have fresh: "c \<notin> set (map fst bd)"
      using Cons.prems(2) cg by auto
    have d: "distinct (map fst gs)"
      and i: "set (map fst gs) \<inter> set (map fst (bd @ [(c, breakdownEntryOf best)])) = {}"
      using Cons.prems cg by auto
    from Cons.IH [OF d i] show ?thesis
      by (simp add: cg Cons setKey_fresh [OF fresh] add.assoc)
  qed
qed

lemma find_hd_filter: "filter P xs \<noteq> [] \<Longrightarrow> find P xs = Some (hd (filter P xs))"
  by (induction xs) auto

lemma hd_sorted_wrt_max:
  "sorted_wrt (\<lambda>a b. f b \<le> f a) xs \<Longrightarrow> x \<in> set xs \<Longrightarrow> (f x :: int) \<le> f (hd xs)"
  by (cases xs) auto

lemma find_conj:
  "find P xs = Some x \<Longrightarrow> Q x \<Longrightarrow> find (\<lambda>y. P y \<and> Q y) xs = Some x"
  by (induction xs) (auto split: if_splits)

lemma find_filter: "find P (filter Q xs) = find (\<lambda>y. P y \<and> Q y) xs"
  by (induction xs) auto

lemma best_first_before_sort:
  assumes "find (\<lambda>m. category (product m) = c) (sortByScoreDesc pre) = Some best"
  shows "find (\<lambda>m. category (product m) = c \<and> matchScore m = matchScore best) pre = Some best"
proof -
  let ?P = "\<lambda>m. category (product m) = c" and ?Q = "\<lambda>m. matchScore m = matchScore best"
  have "find (\<lambda>m. ?P m \<and> ?Q m) (sortByScoreDesc pre) = Some best"
    using find_conj [OF assms, of ?Q] by simp
  then have "find ?P (filter ?Q (sortByScoreDesc pre)) = Some best"
    by (simp add: find_filter)
  then have "find ?P (filter ?Q pre) = Some best"
    by (simp add: stable_sortByScoreDesc)
  then show ?thesis
    by (simp add: find_filter)
qed

lemma sortByScoreDesc_sorted_id:
  "sorted_wrt (\<lambda>a b. matchScore b \<le> matchScore a) ms \<Longrightarrow> sortByScoreDesc ms = ms"
  by (simp add: sortByScoreDesc_def sort_key_id_if_sorted sorted_map)

lemma analyzeProject_breakdown:
  assumes "analyzeProject ms spec = Inr a"
  shows "\<exists>gs. groupByCategory ms [] = Inr gs \<and>
           categoryBreakdown a = map (\<lambda>(c, g). (c, breakdownEntryOf (hd g))) gs \<and>
           estimatedTotalCost a = sum_list (map (\<lambda>(c, g). price (product (hd g))) gs) \<and>
           (\<forall>(c, g) \<in> set gs. g = filter (\<lambda>m. category (product m) = c) ms \<and> g \<noteq> [])"
proof -
  from analyzeProject_cases [of ms spec] assms obtain gs where
    gs: "groupByCategory ms [] = Inr gs"
    and bd: "categoryBreakdown a = fst (breakdownLoop gs ([], 0))"
    and tc: "estimatedTotalCost a = snd (breakdownLoop gs ([], 0))"
    by auto
  have d: "distinct (map fst gs)"
    using groupByCategory_distinct [OF gs] by simp
  have k: "set (map fst gs) = (\<lambda>m. category (product m)) ` set ms"
    using groupByCategory_keys [OF gs] by simp
  have content: "g = filter (\<lambda>m. category (product m) = c) ms \<and> g \<noteq> []"
    if "(c, g) \<in> set gs" for c g
  proof -
    from that d have "map_of gs c = Some g" by simp
    moreover from that k have c: "c \<in> (\<lambda>m. category (product m)) ` set ms"
      by (metis fst_conv image_eqI set_map)
    ultimately have "g = filter (\<lambda>m. category (product m) = c) ms"
      using groupByCategory_content [OF gs, of c] by simp
    moreover from c have "filter (\<lambda>m. category (product m) = c) ms \<noteq> []"
      by (auto simp add: filter_empty_conv)
    ultimately show ?thesis by simp
  qed
  then have ne: "filter (\<lambda>(c, g). g \<noteq> []) gs = gs"
    by (auto simp add: filter_id_conv)
  have "breakdownLoop gs ([], 0) =
          (map (\<lambda>(c, g). (c, breakdownEntryOf (hd g))) gs,
           sum_list (map (\<lambda>(c, g). price (product (hd g))) gs))"
    using breakdownLoop_eq [OF d, of "[]" 0] by (simp add: ne)
  with gs bd tc content show ?thesis by auto
qed

text \<open>
  C7. For a match list sorted by non-increasing score on which \<open>analyzeProject\<close> returns,
  the keys of the category breakdown are distinct and are exactly the categories of the
  matches. The cost of the entry of a category is the price of the first match of that
  category in the list; no match of the category has a higher score, and in every list
  whose stable sort by score is the match list, that match is the first among the matches
  of its category with its score. The estimated total cost is the sum of the costs of the
  entries.
\<close>

theorem C7_category_breakdown:
  assumes "sorted_wrt (\<lambda>a b. matchScore b \<le> matchScore a) ms"
      and "analyzeProject ms spec = Inr a"
  shows "distinct (map fst (categoryBreakdown a)) \<and>
         set (map fst (categoryBreakdown a)) = set (map (\<lambda>m. category (product m)) ms) \<and>
         (\<forall>(c, e) \<in> set (categoryBreakdown a).
            \<exists>best. find (\<lambda>m. category (product m) = c) ms = Some best \<and>
                   cost e = price (product best) \<and>
                   (\<forall>m \<in> set ms. category (product m) = c \<longrightarrow> matchScore m \<le> matchScore best) \<and>
                   (\<forall>pre. ms = sortByScoreDesc pre \<longrightarrow>
                      find (\<lambda>m. category (product m) = c \<and> matchScore m = matchScore best) pre
                        = Some best)) \<and>
         estimatedTotalCost a = sum_list (map (\<lambda>(c, e). cost e) (categoryBreakdown a))"
proof -
  from analyzeProject_breakdown [OF assms(2)] obtain gs where
    gs: "groupByCategory ms [] = Inr gs"
    and bd: "categoryBreakdown a = map (\<lambda>(c, g). (c, breakdownEntryOf (hd g))) gs"
    and tc: "estimatedTotalCost a = sum_list (map (\<lambda>(c, g). price (product (hd g))) gs)"
    and content: "\<forall>(c, g) \<in> set gs. g = filter (\<lambda>m. category (product m) = c) ms \<and> g \<noteq> []"
    by blast
  have keys: "map fst (categoryBreakdown a) = map fst gs"
    by (simp add: bd case_prod_unfold comp_def)
  have c1: "distinct (map fst (categoryBreakdown a))"
    using groupByCategory_distinct [OF gs] by (simp add: keys)
  have c2: "set (map fst (categoryBreakdown a)) = set (map (\<lambda>m. category (product m)) ms)"
    using groupByCategory_keys [OF gs] by (simp only: keys) simp
  have c3: "\<exists>best. find (\<lambda>m. category (product m) = c) ms = Some best \<and>
                   cost e = price (product best) \<and>
                   (\<forall>m \<in> set ms. category (product m) = c \<longrightarrow> matchScore m \<le> matchScore best) \<and>
                   (\<forall>pre. ms = sortByScoreDesc pre \<longrightarrow>
                      find (\<lambda>m. category (product m) = c \<and> matchScore m = matchScore best) pre
                        = Some best)"
    if "(c, e) \<in> set (categoryBreakdown a)" for c e
  proof -
    let ?P = "\<lambda>m. category (product m) = c"
    from that bd obtain g where g: "(c, g) \<in> set gs" and e: "e = breakdownEntryOf (hd g)"
      by auto
    from content g have gf: "g = filter ?P ms" and ne: "filter ?P ms \<noteq> []"
      by auto
    have f: "find ?P ms = Some (hd g)"
      using find_hd_filter [OF ne] gf by simp
    have s: "sorted_wrt (\<lambda>a b. matchScore b \<le> matchScore a) (filter ?P ms)"
      using assms(1) by (rule sorted_wrt_filter)
    have top: "matchScore m \<le> matchScore (hd g)" if "m \<in> set ms" and "?P m" for m
      using hd_sorted_wrt_max [OF s, of m] that gf by simp
    have first: "find (\<lambda>m. ?P m \<and> matchScore m = matchScore (hd g)) pre = Some (hd g)"
      if "ms = sortByScoreDesc pre" for pre
      using best_first_before_sort [of c pre "hd g"] f that by simp
    have "cost e = price (product (hd g))"
      by (simp add: e breakdownEntryOf_def)
    with f top first show ?thesis
      by blast
  qed
  have c4: "estimatedTotalCost a = sum_list (map (\<lambda>(c, e). cost e) (categoryBreakdown a))"
    by (simp add: tc bd comp_def case_prod_unfold breakdownEntryOf_def)
  from c1 c2 c3 c4 show ?thesis by blast
qed

lemmas test_data_defs = sampleCatalog_def cheapLumber_def steelProduct_def scenarioProduct_def
  scenarioSpec_def

lemmas matcher_defs = findMatchingProducts_def filterByLocation_def filterByProjectType_def
  filterByCategories_def filterByCertifications_def filterByEcoPreferences_def
  sortByScoreDesc_def calculateMatchScore_def scoreState_def baseStep_def projectTypeStep_def
  certificationStep_def ecoStep_def stockStep_def installationStep_def warrantyStep_def
  timelineStep_def checkTimeline_def calculateShippingDays_def splitList_def trim_def
  isWhiteSpace_def msPerDay_def newDate_def addDays_def timeClip_def dateLe_def dateDiff_def
  floorDays_def maxTimeValue_def Let_def

lemma sample_ranked:
  "findMatchingProducts sampleCatalog scenarioSpec =
     [\<lparr> estimatedShippingDays = 2, totalLeadTime = 7, estimatedDelivery = Some 604800000,
        meetsTimeline = True, daysMargin = Some 13, product = steelProduct, matchScore = 83,
        matchReasons = [AvailableInLocation, SuitableFor ''Residential'', InStock,
                        Warranty 10, CanDeliver (Some 13)],
        warnings = [] \<rparr>,
      \<lparr> estimatedShippingDays = 2, totalLeadTime = 7, estimatedDelivery = Some 604800000,
        meetsTimeline = True, daysMargin = Some 13, product = scenarioProduct, matchScore = 80,
        matchReasons = [AvailableInLocation, SuitableFor ''Residential'', InStock,
                        CanDeliver (Some 13)],
        warnings = [] \<rparr>,
      \<lparr> estimatedShippingDays = 2, totalLeadTime = 7, estimatedDelivery = Some 604800000,
        meetsTimeline = True, daysMargin = Some 13, product = cheapLumber, matchScore = 75,
        matchReasons = [AvailableInLocation, SuitableFor ''Residential'', CanDeliver (Some 13)],
        warnings = [OutOfStock] \<rparr>]"
  by (simp add: matcher_defs test_data_defs)

lemma sample_analysis:
  "analyzeProject (findMatchingProducts sampleCatalog scenarioSpec) scenarioSpec =
     Inr \<lparr> analysisSpecification = scenarioSpec,
           recommendedProducts = findMatchingProducts sampleCatalog scenarioSpec,
           estimatedTotalCost = 350,
           categoryBreakdown =
             [(''Steel'', \<lparr> entryProduct = ''Beam'', cost = 250, deliveryDate = Some 604800000 \<rparr>),
              (''Lumber'', \<lparr> entryProduct = ''Stud'', cost = 100, deliveryDate = Some 604800000 \<rparr>)],
           timelineAnalysis = \<lparr> feasible = True, criticalPath = [], concerns = [] \<rparr>,
           risks = [BudgetExceeded 350 200],
           recommendations = [AdjustSelectionsOrBudget] \<rparr>"
  unfolding sample_ranked
  by (simp add: analyzeProject_def breakdownEntryOf_def objectPrototypeKeys_def test_data_defs
      Let_def)

lemma sorted_findMatchingProducts:
  "sorted_wrt (\<lambda>a b. matchScore b \<le> matchScore a) (findMatchingProducts allProducts spec)"
  by (simp add: findMatchingProducts_stages scoreAndRank_def sorted_sortByScoreDesc)

text \<open>
  The sample catalog lists a cheap plank before the stud, both Lumber, and a steel beam:
  the ranking is beam, stud, plank, and the breakdown holds the beam for Steel and the stud,
  not the plank, for Lumber.
\<close>

theorem C7_witness:
  "sorted_wrt (\<lambda>a b. matchScore b \<le> matchScore a)
     (findMatchingProducts sampleCatalog scenarioSpec) \<and>
   (\<exists>a. analyzeProject (findMatchingProducts sampleCatalog scenarioSpec) scenarioSpec = Inr a \<and>
        distinct (map fst (categoryBreakdown a)) \<and>
        map fst (categoryBreakdown a) = [''Steel'', ''Lumber''] \<and>
        map (\<lambda>(c, e). cost e) (categoryBreakdown a) = [250, 100] \<and>
        estimatedTotalCost a = 350)"
proof -
  note h1 = sorted_findMatchingProducts [of sampleCatalog scenarioSpec]
  note h2 = sample_analysis
  from C7_category_breakdown [OF h1 h2] h1 show ?thesis
    by (simp add: h2)
qed

section \<open>Failure of the analysis\<close>

text \<open>
  C8, at the input where the code departs from it. A product whose category is the string
  \<open>constructor\<close> passes the filters and is scored; \<open>analyzeProject\<close> on the result
  does not return an analysis but raises a TypeError, since \<open>byCategory['constructor']\<close>
  reads the inherited property and \<open>push\<close> is not a function of it.
\<close>

theorem C8_inherited_category_raises:
  "map (\<lambda>m. category (product m)) (findMatchingProducts [constructorProduct] scenarioSpec)
     = [''constructor''] \<and>
   analyzeProject (findMatchingProducts [constructorProduct] scenarioSpec) scenarioSpec
     = Inl TypeError"
  by (simp add: matcher_defs test_data_defs constructorProduct_def analyzeProject_def
      objectPrototypeKeys_def)

text \<open>
  Apart from the inherited names, the analysis returns for every match list and project,
  and the other parts of C8 hold: without a budget there is no budget risk, without
  required categories no missing-category risk, and the empty match list has cost 0, is
  feasible and has no timeline risk.
\<close>

lemma analyzeProject_returns:
  "\<forall>m \<in> set ms. category (product m) \<notin> set objectPrototypeKeys \<Longrightarrow>
   \<exists>a. analyzeProject ms spec = Inr a"
  using analyzeProject_raises_iff [of ms spec] analyzeProject_cases [of ms spec] by blast

lemma analyzeProject_no_budget_risk:
  assumes "maxBudget spec = None \<or> maxBudget spec = Some 0"
      and "analyzeProject ms spec = Inr a"
  shows "BudgetExceeded x y \<notin> set (risks a)"
  using assms
  by (auto simp add: analyzeProject_def Let_def
      split: sum.splits prod.splits option.splits if_splits)

lemma analyzeProject_no_missing_category_risk:
  assumes "requiredCategories spec = None \<or> requiredCategories spec = Some []"
      and "analyzeProject ms spec = Inr a"
  shows "MissingCategories cs \<notin> set (risks a)"
  using assms
  by (auto simp add: analyzeProject_def Let_def
      split: sum.splits prod.splits option.splits if_splits)

lemma analyzeProject_empty:
  "\<exists>a. analyzeProject [] spec = Inr a \<and> estimatedTotalCost a = 0 \<and> categoryBreakdown a = [] \<and>
       feasible (timelineAnalysis a) \<and> (\<forall>n. CannotMeetTimeline n \<notin> set (risks a))"
  by (auto simp add: analyzeProject_def Let_def split: option.splits)

end
